theory Spec2Isabelle
  imports Main "HOL-Library.Word"
begin

unbundle bit_operations_syntax

section \<open>EEPROM driver for AT25320A / M95040-W: data model\<close>

type_synonym uint8_t = "8 word"
type_synonym uint16_t = "16 word"
type_synonym uint32_t = "32 word"

subsection \<open>EEPROM.h: status register masks, block protection, status register\<close>

definition EEPROM_STATUS_BIT_RDY :: uint8_t where
  "EEPROM_STATUS_BIT_RDY = 0x01"

definition EEPROM_STATUS_BIT_WEN :: uint8_t where
  "EEPROM_STATUS_BIT_WEN = 0x02"

definition EEPROM_STATUS_BIT_BP :: uint8_t where
  "EEPROM_STATUS_BIT_BP = 0x0C"

definition EEPROM_STATUS_BIT_WPEN :: uint8_t where
  "EEPROM_STATUS_BIT_WPEN = 0x80"

datatype EEPROM_BlockProtection =
    BlockProtection_None
  | BlockProtection_Quarter
  | BlockProtection_Half
  | BlockProtection_WholeMemory

text \<open>The values the enumeration constants are given in the header.\<close>

fun BlockProtection_value :: "EEPROM_BlockProtection \<Rightarrow> 2 word" where
  "BlockProtection_value BlockProtection_None = 0"
| "BlockProtection_value BlockProtection_Quarter = 1"
| "BlockProtection_value BlockProtection_Half = 2"
| "BlockProtection_value BlockProtection_WholeMemory = 3"

text \<open>
  The bit-field view \<open>SR.B\<close> of \<open>EEPROM_StatusRegister\<close>: five fields of widths
  1, 3, 2, 1, 1 declared in this order, overlaid by the union on the byte \<open>SR.R\<close>.
\<close>

record EEPROM_StatusRegister_B =
  WPEN :: "1 word"
  UNUSED :: "3 word"
  BP :: "2 word"
  WEN :: "1 word"
  RDY :: "1 word"

text \<open>
  C leaves the order in which bit-fields are allocated inside their byte to the
  implementation. It is a parameter here. The SPC5 microcontrollers the library is
  written for are big-endian Power Architecture parts, whose ABI allocates the first
  declared field at the most significant bit.
\<close>

datatype bitfield_order = MSB_first | LSB_first

text \<open>Reading \<open>SR.B\<close> after \<open>SR.R\<close> was stored.\<close>

fun SR_B :: "bitfield_order \<Rightarrow> uint8_t \<Rightarrow> EEPROM_StatusRegister_B" where
  "SR_B MSB_first r =
     \<lparr>WPEN = ucast (drop_bit 7 r), UNUSED = ucast (drop_bit 4 r), BP = ucast (drop_bit 2 r),
      WEN = ucast (drop_bit 1 r), RDY = ucast r\<rparr>"
| "SR_B LSB_first r =
     \<lparr>WPEN = ucast r, UNUSED = ucast (drop_bit 1 r), BP = ucast (drop_bit 4 r),
      WEN = ucast (drop_bit 6 r), RDY = ucast (drop_bit 7 r)\<rparr>"

subsection \<open>Opcodes and address bytes (eeprom.c)\<close>

definition EEPROM_SPI_ENABLE_WRITE :: uint16_t where
  "EEPROM_SPI_ENABLE_WRITE = 0x06"

definition EEPROM_SPI_DISABLE_WRITE :: uint16_t where
  "EEPROM_SPI_DISABLE_WRITE = 0x04"

definition EEPROM_SPI_READ_STATUS_REG :: uint16_t where
  "EEPROM_SPI_READ_STATUS_REG = 0x05"

definition EEPROM_SPI_WRITE_STATUS_REG :: uint16_t where
  "EEPROM_SPI_WRITE_STATUS_REG = 0x01"

definition EEPROM_SPI_READ_DATA :: uint16_t where
  "EEPROM_SPI_READ_DATA = 0x03"

definition EEPROM_SPI_WRITE_DATA :: uint16_t where
  "EEPROM_SPI_WRITE_DATA = 0x02"

text \<open>
  The two address arguments of the exchanges, \<open>(addr >> 8)\<close> and \<open>(addr & 0xFF)\<close>.
  \<open>addr\<close> is a \<open>uint16_t\<close>; both expressions are computed in \<open>int\<close> after promotion,
  stay below \<open>2^16\<close> and are passed as the \<open>uint16_t\<close> frame.
\<close>

definition addr_high :: "uint16_t \<Rightarrow> uint16_t" where
  "addr_high addr = drop_bit 8 addr"

definition addr_low :: "uint16_t \<Rightarrow> uint16_t" where
  "addr_low addr = addr AND 0xFF"

section \<open>The hardware abstraction layer\<close>

text \<open>
  Modelled from the spec: the primitives \<open>spi_lld_polled_exchange\<close>, \<open>pal_lld_setpad\<close>,
  \<open>pal_lld_clearpad\<close> and \<open>osalThreadDelayMicroseconds\<close> belong to the SPC5 HAL and
  are not part of the repository. Following section 6 of the specification each of them is
  synchronous and always succeeds. Whatever is attached to the bus is a parameter: a device
  state \<open>'d\<close> with its reaction to a frame (the frame it shifts back), to a change of the
  chip-select pad and to the passing of time.
\<close>

record 'd bus =
  on_exchange :: "uint16_t \<Rightarrow> 'd \<Rightarrow> uint16_t \<times> 'd"
  on_pad :: "bool \<Rightarrow> 'd \<Rightarrow> 'd"
  on_delay :: "nat \<Rightarrow> 'd \<Rightarrow> 'd"

text \<open>Every call of a primitive is logged, with the frame sent and the frame received.\<close>

datatype event =
    Pal_clearpad
  | Pal_setpad
  | Spi_exchange uint16_t uint16_t
  | Delay_us nat

text \<open>
  \<open>pad\<close> is the output level of the one pad the driver drives, \<open>PORT6\<close> /
  \<open>PIN_DSPI_CS_EEPROM\<close> (\<open>True\<close> is high).
\<close>

record 'd world =
  pad :: bool
  dev :: 'd
  trace :: "event list"

definition spi_lld_polled_exchange ::
  "'d bus \<Rightarrow> uint16_t \<Rightarrow> 'd world \<Rightarrow> uint16_t \<times> 'd world" where
  "spi_lld_polled_exchange b frame w =
     (case on_exchange b frame (dev w) of
        (rx, d) \<Rightarrow> (rx, w\<lparr>dev := d, trace := trace w @ [Spi_exchange frame rx]\<rparr>))"

definition pal_lld_setpad :: "'d bus \<Rightarrow> 'd world \<Rightarrow> 'd world" where
  "pal_lld_setpad b w =
     w\<lparr>pad := True, dev := on_pad b True (dev w), trace := trace w @ [Pal_setpad]\<rparr>"

definition pal_lld_clearpad :: "'d bus \<Rightarrow> 'd world \<Rightarrow> 'd world" where
  "pal_lld_clearpad b w =
     w\<lparr>pad := False, dev := on_pad b False (dev w), trace := trace w @ [Pal_clearpad]\<rparr>"

definition osalThreadDelayMicroseconds :: "'d bus \<Rightarrow> nat \<Rightarrow> 'd world \<Rightarrow> 'd world" where
  "osalThreadDelayMicroseconds b n w =
     w\<lparr>dev := on_delay b n (dev w), trace := trace w @ [Delay_us n]\<rparr>"

section \<open>The driver (eeprom.c)\<close>

subsection \<open>HAL functions\<close>

text \<open>The result of the exchange is returned as \<open>uint8_t\<close>: its upper byte is dropped.\<close>

definition EEPROM_exchangeSpi :: "'d bus \<Rightarrow> uint16_t \<Rightarrow> 'd world \<Rightarrow> uint8_t \<times> 'd world" where
  "EEPROM_exchangeSpi b frame w =
     (case spi_lld_polled_exchange b frame w of (rx, w') \<Rightarrow> (ucast rx, w'))"

definition EEPROM_setChipSelect :: "'d bus \<Rightarrow> 'd world \<Rightarrow> 'd world" where
  "EEPROM_setChipSelect b w = pal_lld_setpad b w"

definition EEPROM_clearChipSelect :: "'d bus \<Rightarrow> 'd world \<Rightarrow> 'd world" where
  "EEPROM_clearChipSelect b w = pal_lld_clearpad b w"

subsection \<open>Commands\<close>

definition EEPROM_enableWrite :: "'d bus \<Rightarrow> 'd world \<Rightarrow> 'd world" where
  "EEPROM_enableWrite b w =
     (let w1 = EEPROM_clearChipSelect b w;
          w2 = snd (EEPROM_exchangeSpi b EEPROM_SPI_ENABLE_WRITE w1)
      in EEPROM_setChipSelect b w2)"

definition EEPROM_disableWrite :: "'d bus \<Rightarrow> 'd world \<Rightarrow> 'd world" where
  "EEPROM_disableWrite b w =
     (let w1 = EEPROM_clearChipSelect b w;
          w2 = snd (EEPROM_exchangeSpi b EEPROM_SPI_DISABLE_WRITE w1)
      in EEPROM_setChipSelect b w2)"

definition EEPROM_readStatusReg :: "'d bus \<Rightarrow> 'd world \<Rightarrow> uint8_t \<times> 'd world" where
  "EEPROM_readStatusReg b w =
     (let w1 = EEPROM_clearChipSelect b w;
          w2 = snd (EEPROM_exchangeSpi b EEPROM_SPI_READ_STATUS_REG w1);
          (retVal, w3) = EEPROM_exchangeSpi b 0 w2
      in (retVal, EEPROM_setChipSelect b w3))"

definition EEPROM_writeStatusReg :: "'d bus \<Rightarrow> uint8_t \<Rightarrow> 'd world \<Rightarrow> 'd world" where
  "EEPROM_writeStatusReg b cmd w =
     (let w1 = EEPROM_clearChipSelect b w;
          w2 = snd (EEPROM_exchangeSpi b EEPROM_SPI_WRITE_STATUS_REG w1);
          w3 = snd (EEPROM_exchangeSpi b (ucast cmd) w2)
      in EEPROM_setChipSelect b w3)"

definition EEPROM_readByte :: "'d bus \<Rightarrow> uint16_t \<Rightarrow> 'd world \<Rightarrow> uint8_t \<times> 'd world" where
  "EEPROM_readByte b addr w =
     (let w1 = EEPROM_clearChipSelect b w;
          w2 = snd (EEPROM_exchangeSpi b EEPROM_SPI_READ_DATA w1);
          w3 = snd (EEPROM_exchangeSpi b (addr_high addr) w2);
          w4 = snd (EEPROM_exchangeSpi b (addr_low addr) w3);
          (retVal, w5) = EEPROM_exchangeSpi b 0 w4
      in (retVal, EEPROM_setChipSelect b w5))"

definition EEPROM_writeByte :: "'d bus \<Rightarrow> uint16_t \<Rightarrow> uint8_t \<Rightarrow> 'd world \<Rightarrow> 'd world" where
  "EEPROM_writeByte b addr data w =
     (let w1 = EEPROM_clearChipSelect b w;
          w2 = snd (EEPROM_exchangeSpi b EEPROM_SPI_WRITE_DATA w1);
          w3 = snd (EEPROM_exchangeSpi b (addr_high addr) w2);
          w4 = snd (EEPROM_exchangeSpi b (addr_low addr) w3);
          w5 = snd (EEPROM_exchangeSpi b (ucast data) w4)
      in EEPROM_setChipSelect b w5)"

subsection \<open>Range commands\<close>

text \<open>
  \<open>data\<close> points into a buffer of the caller, modelled as the list of its bytes. An
  access \<open>data[i]\<close> beyond the buffer is undefined behaviour in C: the model returns
  \<open>None\<close> there. The buffer is returned with the world, as the caller finds it after
  the call. The loop counter is a \<open>uint32_t\<close>, as \<open>length\<close> is.
\<close>

function readRange_loop ::
  "'d bus \<Rightarrow> uint32_t \<Rightarrow> uint32_t \<Rightarrow> uint8_t list \<Rightarrow> 'd world \<Rightarrow> (uint8_t list \<times> 'd world) option" where
  "readRange_loop b i len data w =
     (if i < len then
        (case EEPROM_exchangeSpi b 0 w of
           (rx, w') \<Rightarrow>
             if unat i < length data then readRange_loop b (i + 1) len (data[unat i := rx]) w'
             else None)
      else Some (data, w))"
  by pat_completeness auto
termination
proof (relation "measure (\<lambda>(b, i, len, data, w). unat len - unat i)")
  show "wf (measure (\<lambda>(b :: 'd bus, i, len, data :: uint8_t list, w :: 'd world). unat len - unat i))"
    by simp
next
  fix b :: "'d bus" and i len :: uint32_t and data :: "uint8_t list" and w :: "'d world"
    and x :: "uint8_t \<times> 'd world" and rx w'
  assume "i < len"
  then have below: "unat i < unat len"
    by (simp add: word_less_nat_alt)
  moreover have "unat len < 2 ^ 32"
    using unsigned_less [of len, where ?'a = nat] by simp
  ultimately have "unat i + 1 < 2 ^ 32"
    by linarith
  then have "unat (i + 1) = Suc (unat i)"
    by (simp add: unat_word_ariths)
  with below show "((b, i + 1, len, data[unat i := rx], w'), (b, i, len, data, w))
      \<in> measure (\<lambda>(b, i, len, data, w). unat len - unat i)"
    by simp
qed

definition EEPROM_readRange ::
  "'d bus \<Rightarrow> uint16_t \<Rightarrow> uint8_t list \<Rightarrow> uint32_t \<Rightarrow> 'd world \<Rightarrow> (uint8_t list \<times> 'd world) option" where
  "EEPROM_readRange b startAddr data len w =
     (let w1 = EEPROM_clearChipSelect b w;
          w2 = snd (EEPROM_exchangeSpi b EEPROM_SPI_READ_DATA w1);
          w3 = snd (EEPROM_exchangeSpi b (addr_high startAddr) w2);
          w4 = snd (EEPROM_exchangeSpi b (addr_low startAddr) w3)
      in case readRange_loop b 0 len data w4 of
           None \<Rightarrow> None
         | Some (data', w5) \<Rightarrow> Some (data', EEPROM_setChipSelect b w5))"

function writeRange_loop ::
  "'d bus \<Rightarrow> uint32_t \<Rightarrow> uint32_t \<Rightarrow> uint8_t list \<Rightarrow> 'd world \<Rightarrow> (uint8_t list \<times> 'd world) option" where
  "writeRange_loop b i len data w =
     (if i < len then
        (if unat i < length data then
           writeRange_loop b (i + 1) len data (snd (EEPROM_exchangeSpi b (ucast (data ! unat i)) w))
         else None)
      else Some (data, w))"
  by pat_completeness auto
termination
proof (relation "measure (\<lambda>(b, i, len, data, w). unat len - unat i)")
  show "wf (measure (\<lambda>(b :: 'd bus, i, len, data :: uint8_t list, w :: 'd world). unat len - unat i))"
    by simp
next
  fix b :: "'d bus" and i len :: uint32_t and data :: "uint8_t list" and w :: "'d world"
  assume "i < len"
  then have below: "unat i < unat len"
    by (simp add: word_less_nat_alt)
  moreover have "unat len < 2 ^ 32"
    using unsigned_less [of len, where ?'a = nat] by simp
  ultimately have "unat i + 1 < 2 ^ 32"
    by linarith
  then have "unat (i + 1) = Suc (unat i)"
    by (simp add: unat_word_ariths)
  with below show "((b, i + 1, len, data, snd (EEPROM_exchangeSpi b (ucast (data ! unat i)) w)),
      (b, i, len, data, w)) \<in> measure (\<lambda>(b, i, len, data, w). unat len - unat i)"
    by simp
qed

definition EEPROM_writeRange ::
  "'d bus \<Rightarrow> uint16_t \<Rightarrow> uint8_t list \<Rightarrow> uint32_t \<Rightarrow> 'd world \<Rightarrow> (uint8_t list \<times> 'd world) option" where
  "EEPROM_writeRange b startAddr data len w =
     (let w1 = EEPROM_clearChipSelect b w;
          w2 = snd (EEPROM_exchangeSpi b EEPROM_SPI_WRITE_DATA w1);
          w3 = snd (EEPROM_exchangeSpi b (addr_high startAddr) w2);
          w4 = snd (EEPROM_exchangeSpi b (addr_low startAddr) w3)
      in case writeRange_loop b 0 len data w4 of
           None \<Rightarrow> None
         | Some (data', w5) \<Rightarrow> Some (data', EEPROM_setChipSelect b w5))"

subsection \<open>Waiting for the end of the write cycle\<close>

text \<open>
  The loop of \<open>EEPROM_wait\<close> has no bound, so the function is partial: \<open>None\<close> is the
  run that never leaves the loop.
\<close>

partial_function (option) EEPROM_wait :: "'d bus \<Rightarrow> 'd world \<Rightarrow> 'd world option" where
  "EEPROM_wait b w =
     (case EEPROM_readStatusReg b w of
        (status, w1) \<Rightarrow>
          if status AND EEPROM_STATUS_BIT_RDY = 0 then Some w1
          else EEPROM_wait b (osalThreadDelayMicroseconds b 1 w1))"

declare EEPROM_wait.simps [code]

section \<open>Observations on the log\<close>

fun is_exchange :: "event \<Rightarrow> bool" where
  "is_exchange (Spi_exchange out rx) = True"
| "is_exchange e = False"

text \<open>
  \<open>one_frame opc es\<close>: the events \<open>es\<close> are one transaction. The pad is driven low
  first and high last, everything in between is an exchange, there is at least one, and
  the first of them sends \<open>opc\<close>.
\<close>

fun one_frame :: "uint16_t \<Rightarrow> event list \<Rightarrow> bool" where
  "one_frame opc (Pal_clearpad # Spi_exchange out rx # rest) =
     (out = opc \<and> rest \<noteq> [] \<and> last rest = Pal_setpad \<and> list_all is_exchange (butlast rest))"
| "one_frame opc es = False"

text \<open>
  \<open>status_frame es\<close> reads one read-status transaction off the front of \<open>es\<close>: the
  status byte the driver got and the events after the transaction.
\<close>

fun status_frame :: "event list \<Rightarrow> (uint8_t \<times> event list) option" where
  "status_frame (Pal_clearpad # Spi_exchange out1 rx1 # Spi_exchange out2 rx2 # Pal_setpad # rest) =
     (if out1 = 0x05 \<and> out2 = 0 then Some (ucast rx2, rest) else None)"
| "status_frame es = None"

text \<open>
  \<open>poll_trace k es\<close>: the events \<open>es\<close> are \<open>k\<close> read-status transactions that found
  RDY set, each followed by a delay of one microsecond and nothing else, and then one
  read-status transaction that found RDY clear, with nothing after it.
\<close>

fun poll_trace :: "nat \<Rightarrow> event list \<Rightarrow> bool" where
  "poll_trace 0 es =
     (case status_frame es of
        Some (status, rest) \<Rightarrow> status AND 0x01 = 0 \<and> rest = []
      | None \<Rightarrow> False)"
| "poll_trace (Suc k) es =
     (case status_frame es of
        Some (status, Delay_us n # rest) \<Rightarrow> status AND 0x01 \<noteq> 0 \<and> n = 1 \<and> poll_trace k rest
      | _ \<Rightarrow> False)"

text \<open>
  The world in which the loop of \<open>EEPROM_wait\<close> starts its round \<open>n\<close> (counted from 0),
  if every earlier round found the device busy, and the status byte that round reads.
\<close>

fun poll_world :: "'d bus \<Rightarrow> 'd world \<Rightarrow> nat \<Rightarrow> 'd world" where
  "poll_world b w 0 = w"
| "poll_world b w (Suc n) =
     poll_world b (osalThreadDelayMicroseconds b 1 (snd (EEPROM_readStatusReg b w))) n"

definition nth_status :: "'d bus \<Rightarrow> 'd world \<Rightarrow> nat \<Rightarrow> uint8_t" where
  "nth_status b w n = fst (EEPROM_readStatusReg b (poll_world b w n))"

section \<open>A model of the memory device\<close>

text \<open>
  Modelled from the spec: the memory device is hardware and not part of the repository.
  This is the device the round-trip property of section 8 speaks of, with the behaviour
  sections 3 and 4 of the specification give it: a frame is shifted in while chip-select
  is low and acted on when chip-select rises; enable-write and disable-write set and clear
  WEN; a write frame is latched into the memory array if WEN is set, clears WEN and starts
  a write cycle; during the write cycle the status register shows RDY set and every
  command but read-status is ignored; a read frame shifts out the bytes at successive
  addresses. The device looks at the low byte of each frame only. The length of the write
  cycle is counted in status reads (\<open>t_write\<close>).
\<close>

record eeprom =
  sel :: bool
  shifted :: "uint8_t list"
  mem :: "uint16_t \<Rightarrow> uint8_t"
  wel :: bool
  busy :: nat
  t_write :: nat

definition eeprom_status :: "eeprom \<Rightarrow> uint8_t" where
  "eeprom_status d =
     (if 0 < busy d then EEPROM_STATUS_BIT_RDY else 0) OR
     (if wel d then EEPROM_STATUS_BIT_WEN else 0)"

definition eeprom_addr :: "uint8_t \<Rightarrow> uint8_t \<Rightarrow> uint16_t" where
  "eeprom_addr hi lo = push_bit 8 (ucast hi) OR ucast lo"

fun eeprom_store :: "uint16_t \<Rightarrow> uint8_t list \<Rightarrow> (uint16_t \<Rightarrow> uint8_t) \<Rightarrow> uint16_t \<Rightarrow> uint8_t" where
  "eeprom_store a [] m = m"
| "eeprom_store a (x # xs) m = eeprom_store (a + 1) xs (m(a := x))"

definition eeprom_exchange :: "uint16_t \<Rightarrow> eeprom \<Rightarrow> uint16_t \<times> eeprom" where
  "eeprom_exchange out d =
     (if \<not> sel d then (0, d)
      else
        (case shifted d of
           opc # hi # lo # rest \<Rightarrow>
             if opc = 0x05 then
               (ucast (eeprom_status d), d\<lparr>shifted := shifted d @ [ucast out], busy := busy d - 1\<rparr>)
             else if opc = 0x03 \<and> busy d = 0 then
               (ucast (mem d (eeprom_addr hi lo + of_nat (length rest))),
                d\<lparr>shifted := shifted d @ [ucast out]\<rparr>)
             else (0, d\<lparr>shifted := shifted d @ [ucast out]\<rparr>)
         | opc # rest \<Rightarrow>
             if opc = 0x05 then
               (ucast (eeprom_status d), d\<lparr>shifted := shifted d @ [ucast out], busy := busy d - 1\<rparr>)
             else (0, d\<lparr>shifted := shifted d @ [ucast out]\<rparr>)
         | [] \<Rightarrow> (0, d\<lparr>shifted := [ucast out]\<rparr>)))"

definition eeprom_latch :: "eeprom \<Rightarrow> eeprom" where
  "eeprom_latch d =
     (if 0 < busy d then d
      else if shifted d = [0x06] then d\<lparr>wel := True\<rparr>
      else if shifted d = [0x04] then d\<lparr>wel := False\<rparr>
      else
        (case shifted d of
           opc # hi # lo # x # xs \<Rightarrow>
             if opc = 0x02 \<and> wel d then
               d\<lparr>mem := eeprom_store (eeprom_addr hi lo) (x # xs) (mem d), wel := False,
                 busy := t_write d\<rparr>
             else d
         | _ \<Rightarrow> d))"

definition eeprom_pad :: "bool \<Rightarrow> eeprom \<Rightarrow> eeprom" where
  "eeprom_pad level d =
     (if level then (if sel d then (eeprom_latch d)\<lparr>sel := False, shifted := []\<rparr> else d)
      else (if sel d then d else d\<lparr>sel := True, shifted := []\<rparr>))"

definition eeprom_bus :: "eeprom bus" where
  "eeprom_bus = \<lparr>on_exchange = eeprom_exchange, on_pad = eeprom_pad, on_delay = (\<lambda>n d. d)\<rparr>"

text \<open>An erased device at rest, and the world the driver starts in.\<close>

definition eeprom_erased :: "nat \<Rightarrow> eeprom" where
  "eeprom_erased t =
     \<lparr>sel = False, shifted = [], mem = (\<lambda>a. 0xFF), wel = False, busy = 0, t_write = t\<rparr>"

definition world_init :: "'d \<Rightarrow> 'd world" where
  "world_init d = \<lparr>pad = True, dev = d, trace = []\<rparr>"

text \<open>An erased device in a write cycle that lasts \<open>k\<close> more status reads.\<close>

definition eeprom_writing :: "nat \<Rightarrow> eeprom" where
  "eeprom_writing k = (eeprom_erased k)\<lparr>busy := k\<rparr>"

text \<open>
  A bus with no device answering: the input line is pulled high, every frame reads back
  as all ones.
\<close>

definition no_device :: "unit bus" where
  "no_device =
     \<lparr>on_exchange = (\<lambda>out d. (0xFFFF, d)), on_pad = (\<lambda>level d. d), on_delay = (\<lambda>n d. d)\<rparr>"

section \<open>Auxiliary facts\<close>

declare readRange_loop.simps [simp del] writeRange_loop.simps [simp del]

subsection \<open>What one primitive does to the world\<close>

lemma exchangeSpi_fst:
  "fst (EEPROM_exchangeSpi b f w) = ucast (fst (on_exchange b f (dev w)))"
  by (simp add: EEPROM_exchangeSpi_def spi_lld_polled_exchange_def split: prod.split)

lemma exchangeSpi_snd:
  "snd (EEPROM_exchangeSpi b f w) =
     w\<lparr>dev := snd (on_exchange b f (dev w)),
       trace := trace w @ [Spi_exchange f (fst (on_exchange b f (dev w)))]\<rparr>"
  by (simp add: EEPROM_exchangeSpi_def spi_lld_polled_exchange_def split: prod.split)

lemmas chip_select_defs =
  EEPROM_setChipSelect_def EEPROM_clearChipSelect_def pal_lld_setpad_def pal_lld_clearpad_def

lemmas command_defs =
  EEPROM_enableWrite_def EEPROM_disableWrite_def EEPROM_readStatusReg_def
  EEPROM_writeStatusReg_def EEPROM_readByte_def EEPROM_writeByte_def

lemmas opcode_defs =
  EEPROM_SPI_ENABLE_WRITE_def EEPROM_SPI_DISABLE_WRITE_def EEPROM_SPI_READ_STATUS_REG_def
  EEPROM_SPI_WRITE_STATUS_REG_def EEPROM_SPI_READ_DATA_def EEPROM_SPI_WRITE_DATA_def

lemmas command_simps =
  command_defs chip_select_defs opcode_defs exchangeSpi_snd exchangeSpi_fst Let_def
  case_prod_unfold

subsection \<open>The log of each command\<close>

lemma enableWrite_log:
  "\<exists>r. pad (EEPROM_enableWrite b w) \<and>
     trace (EEPROM_enableWrite b w) = trace w @ [Pal_clearpad, Spi_exchange 0x06 r, Pal_setpad]"
  by (simp add: command_simps)

lemma disableWrite_log:
  "\<exists>r. pad (EEPROM_disableWrite b w) \<and>
     trace (EEPROM_disableWrite b w) = trace w @ [Pal_clearpad, Spi_exchange 0x04 r, Pal_setpad]"
  by (simp add: command_simps)

lemma readStatusReg_log:
  "\<exists>r0 r. pad (snd (EEPROM_readStatusReg b w)) \<and>
     trace (snd (EEPROM_readStatusReg b w)) =
       trace w @ [Pal_clearpad, Spi_exchange 0x05 r0, Spi_exchange 0 r, Pal_setpad] \<and>
     fst (EEPROM_readStatusReg b w) = ucast r"
  by (simp add: command_simps)

lemma writeStatusReg_log:
  "\<exists>r0 r1. pad (EEPROM_writeStatusReg b cmd w) \<and>
     trace (EEPROM_writeStatusReg b cmd w) =
       trace w @ [Pal_clearpad, Spi_exchange 0x01 r0, Spi_exchange (ucast cmd) r1, Pal_setpad]"
  by (simp add: command_simps)

lemma readByte_log:
  "\<exists>r0 r1 r2 r. pad (snd (EEPROM_readByte b a w)) \<and>
     trace (snd (EEPROM_readByte b a w)) =
       trace w @ [Pal_clearpad, Spi_exchange 0x03 r0, Spi_exchange (addr_high a) r1,
         Spi_exchange (addr_low a) r2, Spi_exchange 0 r, Pal_setpad] \<and>
     fst (EEPROM_readByte b a w) = ucast r"
  by (simp add: command_simps)

lemma writeByte_log:
  "\<exists>r0 r1 r2 r3. pad (EEPROM_writeByte b a v w) \<and>
     trace (EEPROM_writeByte b a v w) =
       trace w @ [Pal_clearpad, Spi_exchange 0x02 r0, Spi_exchange (addr_high a) r1,
         Spi_exchange (addr_low a) r2, Spi_exchange (ucast v) r3, Pal_setpad]"
  by (simp add: command_simps)

subsection \<open>The loops of the range commands\<close>

lemma unat_succ_below:
  fixes i len :: uint32_t
  assumes "i < len"
  shows "unat (i + 1) = Suc (unat i)"
proof -
  from assms have "unat i < unat len"
    by (simp add: word_less_nat_alt)
  moreover have "unat len < 2 ^ 32"
    using unsigned_less [of len, where ?'a = nat] by simp
  ultimately have "unat i + 1 < 2 ^ 32"
    by linarith
  then show ?thesis
    by (simp add: unat_word_ariths)
qed

lemma readRange_loop_spec:
  "unat len \<le> length data \<Longrightarrow> i \<le> len \<Longrightarrow>
   \<exists>rs w'. readRange_loop b i len data w =
       Some (take (unat i) data @ map ucast rs @ drop (unat len) data, w') \<and>
     length rs = unat len - unat i \<and>
     trace w' = trace w @ map (Spi_exchange 0) rs \<and> pad w' = pad w"
proof (induction b i len data w rule: readRange_loop.induct)
  case (1 b i len data w)
  show ?case
  proof (cases "i < len")
    case False
    with \<open>i \<le> len\<close> have "i = len"
      by simp
    with \<open>unat len \<le> length data\<close> show ?thesis
      by (simp add: readRange_loop.simps [of b len len])
  next
    case True
    define r where "r = fst (on_exchange b 0 (dev w))"
    define w1 where "w1 = snd (EEPROM_exchangeSpi b 0 w)"
    have step: "EEPROM_exchangeSpi b 0 w = (ucast r, w1)"
      by (simp add: prod_eq_iff exchangeSpi_fst r_def w1_def)
    have w1: "trace w1 = trace w @ [Spi_exchange 0 r]" "pad w1 = pad w"
      by (simp_all add: w1_def r_def exchangeSpi_snd)
    from True have below: "unat i < unat len" and suc: "unat (i + 1) = Suc (unat i)"
      by (simp_all add: word_less_nat_alt unat_succ_below)
    with \<open>unat len \<le> length data\<close> have inside: "unat i < length data"
      by simp
    from below suc have "i + 1 \<le> len"
      by (simp add: word_le_nat_alt)
    with "1.IH" [OF True step [symmetric] inside] \<open>unat len \<le> length data\<close>
    obtain rs w' where rest:
      "readRange_loop b (i + 1) len (data[unat i := ucast r]) w1 =
         Some (take (unat (i + 1)) (data[unat i := ucast r]) @ map ucast rs @
           drop (unat len) (data[unat i := ucast r]), w')"
      "length rs = unat len - unat (i + 1)"
      "trace w' = trace w1 @ map (Spi_exchange 0) rs" "pad w' = pad w1"
      by auto
    have "take (unat (i + 1)) (data[unat i := ucast r]) = take (unat i) data @ [ucast r]"
      using inside by (simp add: suc take_Suc_conv_app_nth)
    moreover have "drop (unat len) (data[unat i := ucast r]) = drop (unat len) data"
      using below by simp
    ultimately have "readRange_loop b i len data w =
        Some (take (unat i) data @ map ucast (r # rs) @ drop (unat len) data, w')"
      using True inside rest(1) by (simp add: readRange_loop.simps [of b i] step)
    moreover have "length (r # rs) = unat len - unat i"
      using rest(2) below suc by simp
    moreover have "trace w' = trace w @ map (Spi_exchange 0) (r # rs)"
      using rest(3) w1 by simp
    ultimately show ?thesis
      using rest(4) w1(2) by blast
  qed
qed


lemma writeRange_loop_spec:
  "unat len \<le> length data \<Longrightarrow> i \<le> len \<Longrightarrow>
   \<exists>rs w'. writeRange_loop b i len data w = Some (data, w') \<and>
     length rs = unat len - unat i \<and>
     trace w' = trace w @
       map2 Spi_exchange (map ucast (drop (unat i) (take (unat len) data))) rs \<and>
     pad w' = pad w"
proof (induction b i len data w rule: writeRange_loop.induct)
  case (1 b i len data w)
  show ?case
  proof (cases "i < len")
    case False
    with \<open>i \<le> len\<close> have "i = len"
      by simp
    with \<open>unat len \<le> length data\<close> show ?thesis
      by (simp add: writeRange_loop.simps [of b len len])
  next
    case True
    define f :: uint16_t where "f = ucast (data ! unat i)"
    define r where "r = fst (on_exchange b f (dev w))"
    define w1 where "w1 = snd (EEPROM_exchangeSpi b f w)"
    have w1: "trace w1 = trace w @ [Spi_exchange f r]" "pad w1 = pad w"
      by (simp_all add: w1_def r_def exchangeSpi_snd)
    from True have below: "unat i < unat len" and suc: "unat (i + 1) = Suc (unat i)"
      by (simp_all add: word_less_nat_alt unat_succ_below)
    with \<open>unat len \<le> length data\<close> have inside: "unat i < length data"
      by simp
    from below suc have "i + 1 \<le> len"
      by (simp add: word_le_nat_alt)
    with "1.IH" [OF True inside] \<open>unat len \<le> length data\<close>
    obtain rs w' where rest:
      "writeRange_loop b (i + 1) len data w1 = Some (data, w')"
      "length rs = unat len - unat (i + 1)"
      "trace w' = trace w1 @
         map2 Spi_exchange (map ucast (drop (unat (i + 1)) (take (unat len) data))) rs"
      "pad w' = pad w1"
      unfolding w1_def f_def by auto
    have "drop (unat i) (take (unat len) data) =
        data ! unat i # drop (unat (i + 1)) (take (unat len) data)"
      using below inside Cons_nth_drop_Suc [of "unat i" "take (unat len) data"]
      by (simp add: suc)
    then have "trace w' = trace w @
        map2 Spi_exchange (map ucast (drop (unat i) (take (unat len) data))) (r # rs)"
      using rest(3) w1(1) by (simp add: f_def)
    moreover have "writeRange_loop b i len data w = Some (data, w')"
      using True inside rest(1) by (simp add: writeRange_loop.simps [of b i] w1_def f_def)
    moreover have "length (r # rs) = unat len - unat i"
      using rest(2) below suc by simp
    ultimately show ?thesis
      using rest(4) w1(2) by blast
  qed
qed

lemmas range_simps =
  EEPROM_readRange_def EEPROM_writeRange_def chip_select_defs opcode_defs exchangeSpi_snd Let_def

lemma readRange_log:
  assumes "unat len \<le> length data"
  shows "\<exists>r0 r1 r2 rs w'.
     EEPROM_readRange b a data len w = Some (map ucast rs @ drop (unat len) data, w') \<and>
     length rs = unat len \<and> pad w' \<and>
     trace w' = trace w @ [Pal_clearpad, Spi_exchange 0x03 r0, Spi_exchange (addr_high a) r1,
       Spi_exchange (addr_low a) r2] @ map (Spi_exchange 0) rs @ [Pal_setpad]"
proof -
  define w4 where "w4 = snd (EEPROM_exchangeSpi b (addr_low a)
    (snd (EEPROM_exchangeSpi b (addr_high a)
      (snd (EEPROM_exchangeSpi b EEPROM_SPI_READ_DATA (EEPROM_clearChipSelect b w))))))"
  from readRange_loop_spec [OF assms, of 0 b w4]
  obtain rs w5 where loop:
    "readRange_loop b 0 len data w4 = Some (map ucast rs @ drop (unat len) data, w5)"
    "length rs = unat len" "trace w5 = trace w4 @ map (Spi_exchange 0) rs" "pad w5 = pad w4"
    by auto
  have "\<exists>r0 r1 r2. trace w4 = trace w @ [Pal_clearpad, Spi_exchange 0x03 r0,
      Spi_exchange (addr_high a) r1, Spi_exchange (addr_low a) r2]"
    by (simp add: w4_def range_simps)
  then obtain r0 r1 r2 where w4: "trace w4 = trace w @ [Pal_clearpad, Spi_exchange 0x03 r0,
      Spi_exchange (addr_high a) r1, Spi_exchange (addr_low a) r2]"
    by blast
  have "EEPROM_readRange b a data len w =
      Some (map ucast rs @ drop (unat len) data, EEPROM_setChipSelect b w5)"
    using loop(1) by (simp add: EEPROM_readRange_def Let_def w4_def)
  moreover have "pad (EEPROM_setChipSelect b w5)"
    by (simp add: chip_select_defs)
  moreover have "trace (EEPROM_setChipSelect b w5) =
      trace w @ [Pal_clearpad, Spi_exchange 0x03 r0, Spi_exchange (addr_high a) r1,
        Spi_exchange (addr_low a) r2] @ map (Spi_exchange 0) rs @ [Pal_setpad]"
    using loop(3) w4 by (simp add: chip_select_defs)
  ultimately show ?thesis
    using loop(2) by blast
qed

lemma writeRange_log:
  assumes "unat len \<le> length data"
  shows "\<exists>r0 r1 r2 rs w'.
     EEPROM_writeRange b a data len w = Some (data, w') \<and>
     length rs = unat len \<and> pad w' \<and>
     trace w' = trace w @ [Pal_clearpad, Spi_exchange 0x02 r0, Spi_exchange (addr_high a) r1,
       Spi_exchange (addr_low a) r2] @
       map2 Spi_exchange (map ucast (take (unat len) data)) rs @ [Pal_setpad]"
proof -
  define w4 where "w4 = snd (EEPROM_exchangeSpi b (addr_low a)
    (snd (EEPROM_exchangeSpi b (addr_high a)
      (snd (EEPROM_exchangeSpi b EEPROM_SPI_WRITE_DATA (EEPROM_clearChipSelect b w))))))"
  from writeRange_loop_spec [OF assms, of 0 b w4]
  obtain rs w5 where loop:
    "writeRange_loop b 0 len data w4 = Some (data, w5)"
    "length rs = unat len"
    "trace w5 = trace w4 @ map2 Spi_exchange (map ucast (take (unat len) data)) rs"
    "pad w5 = pad w4"
    by auto
  have "\<exists>r0 r1 r2. trace w4 = trace w @ [Pal_clearpad, Spi_exchange 0x02 r0,
      Spi_exchange (addr_high a) r1, Spi_exchange (addr_low a) r2]"
    by (simp add: w4_def range_simps)
  then obtain r0 r1 r2 where w4: "trace w4 = trace w @ [Pal_clearpad, Spi_exchange 0x02 r0,
      Spi_exchange (addr_high a) r1, Spi_exchange (addr_low a) r2]"
    by blast
  have "EEPROM_writeRange b a data len w = Some (data, EEPROM_setChipSelect b w5)"
    using loop(1) by (simp add: EEPROM_writeRange_def Let_def w4_def)
  moreover have "pad (EEPROM_setChipSelect b w5)"
    by (simp add: chip_select_defs)
  moreover have "trace (EEPROM_setChipSelect b w5) =
      trace w @ [Pal_clearpad, Spi_exchange 0x02 r0, Spi_exchange (addr_high a) r1,
        Spi_exchange (addr_low a) r2] @
        map2 Spi_exchange (map ucast (take (unat len) data)) rs @ [Pal_setpad]"
    using loop(3) w4 by (simp add: chip_select_defs)
  ultimately show ?thesis
    using loop(2) by blast
qed

subsection \<open>The polling loop\<close>

lemma RDY_mask_bit: "s AND EEPROM_STATUS_BIT_RDY = 0 \<longleftrightarrow> \<not> bit s 0"
  by (simp add: EEPROM_STATUS_BIT_RDY_def and_one_eq bit_0 even_iff_mod_2_eq_zero)

lemma wait_ready:
  "\<not> bit (fst (EEPROM_readStatusReg b w)) 0 \<Longrightarrow>
   EEPROM_wait b w = Some (snd (EEPROM_readStatusReg b w))"
  by (subst EEPROM_wait.simps) (simp add: case_prod_unfold RDY_mask_bit)

lemma wait_busy:
  "bit (fst (EEPROM_readStatusReg b w)) 0 \<Longrightarrow>
   EEPROM_wait b w =
     EEPROM_wait b (osalThreadDelayMicroseconds b 1 (snd (EEPROM_readStatusReg b w)))"
  by (subst EEPROM_wait.simps) (simp add: case_prod_unfold RDY_mask_bit)

lemma nth_status_0: "nth_status b w 0 = fst (EEPROM_readStatusReg b w)"
  by (simp add: nth_status_def)

lemma nth_status_Suc:
  "nth_status b w (Suc n) =
     nth_status b (osalThreadDelayMicroseconds b 1 (snd (EEPROM_readStatusReg b w))) n"
  by (simp add: nth_status_def)

lemma wait_returns:
  "(\<And>i. i < k \<Longrightarrow> bit (nth_status b w i) 0) \<Longrightarrow> \<not> bit (nth_status b w k) 0 \<Longrightarrow>
   EEPROM_wait b w = Some (snd (EEPROM_readStatusReg b (poll_world b w k)))"
proof (induction k arbitrary: w)
  case 0
  then show ?case
    by (simp add: wait_ready nth_status_0)
next
  case (Suc k)
  let ?w = "osalThreadDelayMicroseconds b 1 (snd (EEPROM_readStatusReg b w))"
  from Suc.prems(1) [of 0] have "bit (fst (EEPROM_readStatusReg b w)) 0"
    by (simp add: nth_status_0)
  then have "EEPROM_wait b w = EEPROM_wait b ?w"
    by (rule wait_busy)
  moreover have "EEPROM_wait b ?w = Some (snd (EEPROM_readStatusReg b (poll_world b ?w k)))"
  proof (rule Suc.IH)
    fix i assume "i < k"
    then show "bit (nth_status b ?w i) 0"
      using Suc.prems(1) [of "Suc i"] by (simp add: nth_status_Suc)
  next
    show "\<not> bit (nth_status b ?w k) 0"
      using Suc.prems(2) by (simp add: nth_status_Suc)
  qed
  ultimately show ?case
    by simp
qed

lemma wait_Some_ready:
  assumes "EEPROM_wait b w = Some w'"
  shows "\<exists>k. \<not> bit (nth_status b w k) 0"
proof (rule EEPROM_wait.raw_induct [where P = "\<lambda>b w y. \<exists>k. \<not> bit (nth_status b w k) 0"])
  show "EEPROM_wait b w = Some w'"
    by (rule assms)
next
  fix wait :: "'a bus \<Rightarrow> 'a world \<Rightarrow> 'a world option" and b w y
  assume IH: "\<And>b w y. wait b w = Some y \<Longrightarrow> \<exists>k. \<not> bit (nth_status b w k) 0"
    and run: "(case EEPROM_readStatusReg b w of
       (status, w1) \<Rightarrow>
         if status AND EEPROM_STATUS_BIT_RDY = 0 then Some w1
         else wait b (osalThreadDelayMicroseconds b 1 w1)) = Some y"
  show "\<exists>k. \<not> bit (nth_status b w k) 0"
  proof (cases "bit (fst (EEPROM_readStatusReg b w)) 0")
    case False
    then have "\<not> bit (nth_status b w 0) 0"
      by (simp add: nth_status_0)
    then show ?thesis
      by blast
  next
    case True
    with run have "wait b (osalThreadDelayMicroseconds b 1 (snd (EEPROM_readStatusReg b w))) = Some y"
      by (simp add: case_prod_unfold RDY_mask_bit)
    from IH [OF this] obtain k where
      "\<not> bit (nth_status b (osalThreadDelayMicroseconds b 1 (snd (EEPROM_readStatusReg b w))) k) 0"
      by blast
    then have "\<not> bit (nth_status b w (Suc k)) 0"
      by (simp add: nth_status_Suc)
    then show ?thesis
      by blast
  qed
qed

lemma status_mask_bit: "(s :: uint8_t) AND 0x01 = 0 \<longleftrightarrow> \<not> bit s 0"
  by (simp add: and_one_eq bit_0 even_iff_mod_2_eq_zero)

lemma poll_run_log:
  "(\<And>i. i < k \<Longrightarrow> bit (nth_status b w i) 0) \<Longrightarrow> \<not> bit (nth_status b w k) 0 \<Longrightarrow>
   \<exists>es. trace (snd (EEPROM_readStatusReg b (poll_world b w k))) = trace w @ es \<and>
     poll_trace k es \<and> count_list es Pal_clearpad = Suc k \<and>
     es \<noteq> [] \<and> hd es = Pal_clearpad \<and> last es = Pal_setpad"
proof (induction k arbitrary: w)
  case 0
  from readStatusReg_log [of b w] obtain r0 r where log:
    "trace (snd (EEPROM_readStatusReg b w)) =
       trace w @ [Pal_clearpad, Spi_exchange 0x05 r0, Spi_exchange 0 r, Pal_setpad]"
    "fst (EEPROM_readStatusReg b w) = ucast r"
    by blast
  from "0.prems"(2) log(2) have "\<not> bit (ucast r :: uint8_t) 0"
    by (simp add: nth_status_0)
  then have "poll_trace 0 [Pal_clearpad, Spi_exchange 0x05 r0, Spi_exchange 0 r, Pal_setpad]"
    by (simp add: status_mask_bit)
  with log(1) show ?case
    by simp
next
  case (Suc k)
  let ?w = "osalThreadDelayMicroseconds b 1 (snd (EEPROM_readStatusReg b w))"
  from readStatusReg_log [of b w] obtain r0 r where log:
    "trace (snd (EEPROM_readStatusReg b w)) =
       trace w @ [Pal_clearpad, Spi_exchange 0x05 r0, Spi_exchange 0 r, Pal_setpad]"
    "fst (EEPROM_readStatusReg b w) = ucast r"
    by blast
  then have first: "trace ?w =
      trace w @ [Pal_clearpad, Spi_exchange 0x05 r0, Spi_exchange 0 r, Pal_setpad, Delay_us 1]"
    by (simp add: osalThreadDelayMicroseconds_def)
  from Suc.prems(1) [of 0] log(2) have busy: "bit (ucast r :: uint8_t) 0"
    by (simp add: nth_status_0)
  have "\<exists>es. trace (snd (EEPROM_readStatusReg b (poll_world b ?w k))) = trace ?w @ es \<and>
     poll_trace k es \<and> count_list es Pal_clearpad = Suc k \<and>
     es \<noteq> [] \<and> hd es = Pal_clearpad \<and> last es = Pal_setpad"
  proof (rule Suc.IH)
    fix i assume "i < k"
    then show "bit (nth_status b ?w i) 0"
      using Suc.prems(1) [of "Suc i"] by (simp add: nth_status_Suc)
  next
    show "\<not> bit (nth_status b ?w k) 0"
      using Suc.prems(2) by (simp add: nth_status_Suc)
  qed
  then obtain es where rest:
    "trace (snd (EEPROM_readStatusReg b (poll_world b ?w k))) = trace ?w @ es"
    "poll_trace k es" "count_list es Pal_clearpad = Suc k"
    "es \<noteq> []" "last es = Pal_setpad"
    by blast
  let ?es = "[Pal_clearpad, Spi_exchange 0x05 r0, Spi_exchange 0 r, Pal_setpad, Delay_us 1] @ es"
  have "trace (snd (EEPROM_readStatusReg b (poll_world b w (Suc k)))) = trace w @ ?es"
    using rest(1) first by simp
  moreover have "poll_trace (Suc k) ?es"
    using busy rest(2) by (simp add: status_mask_bit)
  moreover have "count_list ?es Pal_clearpad = Suc (Suc k)"
    using rest(3) by simp
  moreover have "?es \<noteq> []" "hd ?es = Pal_clearpad" "last ?es = Pal_setpad"
    using rest(4,5) by simp_all
  ultimately show ?case
    by blast
qed

lemma poll_run_pad:
  "pad (snd (EEPROM_readStatusReg b w))"
  using readStatusReg_log [of b w] by blast

lemma bracketed:
  assumes "es \<noteq> []" and "hd es = Pal_clearpad" and "last es = Pal_setpad"
  shows "\<exists>mid. es = Pal_clearpad # mid @ [Pal_setpad]"
proof -
  from assms(1,2) obtain tl where es: "es = Pal_clearpad # tl"
    by (cases es) auto
  with assms(3) have "tl \<noteq> []"
    by auto
  with es assms(3) have "tl = butlast tl @ [Pal_setpad]"
    by (metis append_butlast_last_id last_ConsR)
  with es show ?thesis
    by blast
qed

lemma wait_run:
  assumes "EEPROM_wait b w = Some w'"
  shows "\<exists>k. (\<forall>i<k. bit (nth_status b w i) 0) \<and> \<not> bit (nth_status b w k) 0 \<and>
    w' = snd (EEPROM_readStatusReg b (poll_world b w k))"
proof -
  define k where "k = (LEAST k. \<not> bit (nth_status b w k) 0)"
  from wait_Some_ready [OF assms] have ready: "\<not> bit (nth_status b w k) 0"
    unfolding k_def by (rule LeastI_ex)
  have busy: "bit (nth_status b w i) 0" if "i < k" for i
    using that not_less_Least [of i "\<lambda>k. \<not> bit (nth_status b w k) 0"] by (simp add: k_def)
  from wait_returns [of k b w] busy ready assms
  have "w' = snd (EEPROM_readStatusReg b (poll_world b w k))"
    by simp
  with busy ready show ?thesis
    by blast
qed

lemma wait_never:
  assumes "\<forall>i. bit (nth_status b w i) 0"
  shows "EEPROM_wait b w = None"
proof (cases "EEPROM_wait b w")
  case None
  then show ?thesis .
next
  case (Some w')
  from wait_Some_ready [OF this] assms show ?thesis
    by blast
qed

subsection \<open>The device model\<close>

lemma eeprom_addr_bytes:
  "eeprom_addr (ucast (addr_high a)) (ucast (addr_low a)) = a"
proof -
  have low: "(0xFF :: uint16_t) = mask 8"
    by (simp add: mask_eq_exp_minus_1)
  show ?thesis
    unfolding eeprom_addr_def addr_high_def addr_low_def low
    by (rule bit_word_eqI) (auto simp add: bit_simps)
qed

lemma ucast_byte_frame: "(ucast (ucast v :: uint16_t) :: uint8_t) = v"
  by (rule bit_word_eqI) (simp add: bit_simps)

text \<open>The device, one exchange at a time.\<close>

lemma exchange_opcode:
  "sel d \<Longrightarrow> shifted d = [] \<Longrightarrow> eeprom_exchange out d = (0, d\<lparr>shifted := [ucast out]\<rparr>)"
  by (simp add: eeprom_exchange_def)

lemma exchange_status:
  "sel d \<Longrightarrow> shifted d = 0x05 # xs \<Longrightarrow>
   eeprom_exchange out d =
     (ucast (eeprom_status d), d\<lparr>shifted := 0x05 # xs @ [ucast out], busy := busy d - 1\<rparr>)"
  by (simp add: eeprom_exchange_def split: list.split)

lemma exchange_write:
  "sel d \<Longrightarrow> shifted d = 0x02 # xs \<Longrightarrow>
   eeprom_exchange out d = (0, d\<lparr>shifted := 0x02 # xs @ [ucast out]\<rparr>)"
  by (simp add: eeprom_exchange_def split: list.split)

lemma exchange_read_high:
  "sel d \<Longrightarrow> shifted d = [0x03] \<Longrightarrow>
   eeprom_exchange out d = (0, d\<lparr>shifted := [0x03, ucast out]\<rparr>)"
  by (simp add: eeprom_exchange_def)

lemma exchange_read_low:
  "sel d \<Longrightarrow> shifted d = [0x03, hi] \<Longrightarrow>
   eeprom_exchange out d = (0, d\<lparr>shifted := [0x03, hi, ucast out]\<rparr>)"
  by (simp add: eeprom_exchange_def)

lemma exchange_read_data:
  "sel d \<Longrightarrow> shifted d = [0x03, hi, lo] \<Longrightarrow> busy d = 0 \<Longrightarrow>
   eeprom_exchange out d = (ucast (mem d (eeprom_addr hi lo)), d\<lparr>shifted := [0x03, hi, lo, ucast out]\<rparr>)"
  by (simp add: eeprom_exchange_def)

lemmas exchange_simps =
  exchange_opcode exchange_status exchange_write exchange_read_high exchange_read_low
  exchange_read_data

lemmas eeprom_simps =
  command_simps eeprom_bus_def eeprom_pad_def exchange_simps eeprom_latch_def

lemma eeprom_enableWrite:
  assumes "\<not> sel (dev w)" and "busy (dev w) = 0"
  shows "\<not> sel (dev (EEPROM_enableWrite eeprom_bus w))"
    and "wel (dev (EEPROM_enableWrite eeprom_bus w))"
    and "busy (dev (EEPROM_enableWrite eeprom_bus w)) = 0"
    and "mem (dev (EEPROM_enableWrite eeprom_bus w)) = mem (dev w)"
    and "t_write (dev (EEPROM_enableWrite eeprom_bus w)) = t_write (dev w)"
  using assms by (simp_all add: eeprom_simps)

lemma eeprom_writeByte:
  assumes "\<not> sel (dev w)" and "busy (dev w) = 0" and "wel (dev w)"
  shows "\<not> sel (dev (EEPROM_writeByte eeprom_bus a v w))"
    and "mem (dev (EEPROM_writeByte eeprom_bus a v w)) = (mem (dev w))(a := v)"
  using assms by (simp_all add: eeprom_simps eeprom_addr_bytes ucast_byte_frame)

lemma eeprom_readStatusReg:
  assumes "\<not> sel (dev w)"
  shows "fst (EEPROM_readStatusReg eeprom_bus w) = eeprom_status (dev w)"
    and "\<not> sel (dev (snd (EEPROM_readStatusReg eeprom_bus w)))"
    and "busy (dev (snd (EEPROM_readStatusReg eeprom_bus w))) = busy (dev w) - 1"
    and "mem (dev (snd (EEPROM_readStatusReg eeprom_bus w))) = mem (dev w)"
    and "wel (dev (snd (EEPROM_readStatusReg eeprom_bus w))) = wel (dev w)"
  using assms by (simp_all add: eeprom_simps ucast_byte_frame eeprom_status_def)

lemma eeprom_readByte:
  assumes "\<not> sel (dev w)" and "busy (dev w) = 0"
  shows "fst (EEPROM_readByte eeprom_bus a w) = mem (dev w) a"
  using assms by (simp add: eeprom_simps eeprom_addr_bytes ucast_byte_frame)

lemma eeprom_status_bit: "bit (eeprom_status d) 0 \<longleftrightarrow> 0 < busy d"
  by (simp add: eeprom_status_def EEPROM_STATUS_BIT_RDY_def EEPROM_STATUS_BIT_WEN_def bit_simps)

lemma eeprom_delay:
  "dev (osalThreadDelayMicroseconds eeprom_bus n w) = dev w"
  by (simp add: osalThreadDelayMicroseconds_def eeprom_bus_def)

lemma eeprom_wait:
  "\<not> sel (dev w) \<Longrightarrow> busy (dev w) = n \<Longrightarrow>
   \<exists>w'. EEPROM_wait eeprom_bus w = Some w' \<and> \<not> sel (dev w') \<and> busy (dev w') = 0 \<and>
     mem (dev w') = mem (dev w)"
proof (induction n arbitrary: w)
  case 0
  then have "\<not> bit (fst (EEPROM_readStatusReg eeprom_bus w)) 0"
    by (simp add: eeprom_readStatusReg eeprom_status_bit)
  then have "EEPROM_wait eeprom_bus w = Some (snd (EEPROM_readStatusReg eeprom_bus w))"
    by (rule wait_ready)
  with 0 show ?case
    by (simp add: eeprom_readStatusReg)
next
  case (Suc n)
  let ?w = "osalThreadDelayMicroseconds eeprom_bus 1 (snd (EEPROM_readStatusReg eeprom_bus w))"
  from Suc.prems have "bit (fst (EEPROM_readStatusReg eeprom_bus w)) 0"
    by (simp add: eeprom_readStatusReg eeprom_status_bit)
  then have "EEPROM_wait eeprom_bus w = EEPROM_wait eeprom_bus ?w"
    by (rule wait_busy)
  moreover from Suc.prems have "\<not> sel (dev ?w)" "busy (dev ?w) = n" "mem (dev ?w) = mem (dev w)"
    by (simp_all add: eeprom_delay eeprom_readStatusReg)
  ultimately show ?case
    using Suc.IH [of ?w] by auto
qed

lemma eeprom_nth_status:
  "\<not> sel (dev w) \<Longrightarrow> bit (nth_status eeprom_bus w i) 0 \<longleftrightarrow> i < busy (dev w)"
proof (induction i arbitrary: w)
  case 0
  then show ?case
    by (simp add: nth_status_0 eeprom_readStatusReg eeprom_status_bit)
next
  case (Suc i)
  let ?w = "osalThreadDelayMicroseconds eeprom_bus 1 (snd (EEPROM_readStatusReg eeprom_bus w))"
  from Suc.prems have "\<not> sel (dev ?w)" "busy (dev ?w) = busy (dev w) - 1"
    by (simp_all add: eeprom_delay eeprom_readStatusReg)
  with Suc.IH [of ?w] show ?case
    by (auto simp add: nth_status_Suc)
qed

section \<open>Properties of the driver\<close>

text \<open>
  C1. Every command is one transaction: what it adds to the log starts with the pad driven
  low, ends with the pad driven high, has only exchanges in between, and the first exchange
  sends the opcode of the command: 0x06 enable-write, 0x04 disable-write, 0x05 read-status,
  0x01 write-status, 0x03 read-byte, 0x02 write-byte, 0x03 read-range, 0x02 write-range.
  The range commands are called with a buffer of at least \<open>length\<close> bytes.
\<close>

theorem frame_shape:
  "(\<exists>es. trace (EEPROM_enableWrite b w) = trace w @ es \<and> one_frame 0x06 es) \<and>
   (\<exists>es. trace (EEPROM_disableWrite b w) = trace w @ es \<and> one_frame 0x04 es) \<and>
   (\<exists>es. trace (snd (EEPROM_readStatusReg b w)) = trace w @ es \<and> one_frame 0x05 es) \<and>
   (\<exists>es. trace (EEPROM_writeStatusReg b cmd w) = trace w @ es \<and> one_frame 0x01 es) \<and>
   (\<exists>es. trace (snd (EEPROM_readByte b a w)) = trace w @ es \<and> one_frame 0x03 es) \<and>
   (\<exists>es. trace (EEPROM_writeByte b a v w) = trace w @ es \<and> one_frame 0x02 es) \<and>
   (unat len \<le> length data \<longrightarrow>
      (\<exists>data' w' es. EEPROM_readRange b a data len w = Some (data', w') \<and>
         trace w' = trace w @ es \<and> one_frame 0x03 es)) \<and>
   (unat len \<le> length data \<longrightarrow>
      (\<exists>data' w' es. EEPROM_writeRange b a data len w = Some (data', w') \<and>
         trace w' = trace w @ es \<and> one_frame 0x02 es))"
proof (intro conjI impI)
  show "\<exists>es. trace (EEPROM_enableWrite b w) = trace w @ es \<and> one_frame 0x06 es"
    using enableWrite_log [of b w] by auto
  show "\<exists>es. trace (EEPROM_disableWrite b w) = trace w @ es \<and> one_frame 0x04 es"
    using disableWrite_log [of b w] by auto
  show "\<exists>es. trace (snd (EEPROM_readStatusReg b w)) = trace w @ es \<and> one_frame 0x05 es"
    using readStatusReg_log [of b w] by auto
  show "\<exists>es. trace (EEPROM_writeStatusReg b cmd w) = trace w @ es \<and> one_frame 0x01 es"
    using writeStatusReg_log [of b cmd w] by auto
  show "\<exists>es. trace (snd (EEPROM_readByte b a w)) = trace w @ es \<and> one_frame 0x03 es"
    using readByte_log [of b a w] by auto
  show "\<exists>es. trace (EEPROM_writeByte b a v w) = trace w @ es \<and> one_frame 0x02 es"
    using writeByte_log [of b a v w] by auto
next
  assume "unat len \<le> length data"
  from readRange_log [OF this, of b a w] obtain r0 r1 r2 rs w' where run:
    "EEPROM_readRange b a data len w = Some (map ucast rs @ drop (unat len) data, w')"
    "trace w' = trace w @ [Pal_clearpad, Spi_exchange 0x03 r0, Spi_exchange (addr_high a) r1,
       Spi_exchange (addr_low a) r2] @ map (Spi_exchange 0) rs @ [Pal_setpad]"
    by blast
  have "one_frame 0x03 ([Pal_clearpad, Spi_exchange 0x03 r0, Spi_exchange (addr_high a) r1,
       Spi_exchange (addr_low a) r2] @ map (Spi_exchange 0) rs @ [Pal_setpad])"
    by (simp add: butlast_append list_all_iff)
  with run show "\<exists>data' w' es. EEPROM_readRange b a data len w = Some (data', w') \<and>
      trace w' = trace w @ es \<and> one_frame 0x03 es"
    by blast
next
  assume "unat len \<le> length data"
  from writeRange_log [OF this, of b a w] obtain r0 r1 r2 rs w' where run:
    "EEPROM_writeRange b a data len w = Some (data, w')"
    "trace w' = trace w @ [Pal_clearpad, Spi_exchange 0x02 r0, Spi_exchange (addr_high a) r1,
       Spi_exchange (addr_low a) r2] @
       map2 Spi_exchange (map ucast (take (unat len) data)) rs @ [Pal_setpad]"
    by blast
  have "one_frame 0x02 ([Pal_clearpad, Spi_exchange 0x02 r0, Spi_exchange (addr_high a) r1,
       Spi_exchange (addr_low a) r2] @
       map2 Spi_exchange (map ucast (take (unat len) data)) rs @ [Pal_setpad])"
    by (auto simp add: butlast_append list_all_iff)
  with run show "\<exists>data' w' es. EEPROM_writeRange b a data len w = Some (data', w') \<and>
      trace w' = trace w @ es \<and> one_frame 0x02 es"
    by blast
qed

theorem frame_shape_witness:
  "unat (2 :: uint32_t) \<le> length [0x11, 0x22, 0x33 :: uint8_t] \<and>
   (\<exists>data' w' es.
      EEPROM_readRange eeprom_bus 0x0123 [0x11, 0x22, 0x33] 2 (world_init (eeprom_erased 3)) =
        Some (data', w') \<and>
      trace w' = trace (world_init (eeprom_erased 3)) @ es \<and> one_frame 0x03 es) \<and>
   (\<exists>data' w' es.
      EEPROM_writeRange eeprom_bus 0x0123 [0x11, 0x22, 0x33] 2 (world_init (eeprom_erased 3)) =
        Some (data', w') \<and>
      trace w' = trace (world_init (eeprom_erased 3)) @ es \<and> one_frame 0x02 es)"
  using frame_shape
      [of eeprom_bus "world_init (eeprom_erased 3)" _ "0x0123" _ 2 "[0x11, 0x22, 0x33]"]
  by simp

text \<open>
  C2. For every 16-bit address \<open>a\<close>, shifting the high byte \<open>a >> 8\<close> back up by
  eight bits and or-ing the low byte \<open>a & 0xFF\<close> gives \<open>a\<close> again; read-byte sends the
  high byte first and the low byte second, right after the opcode.
\<close>

theorem address_bytes_recombine:
  "push_bit 8 (addr_high a) OR addr_low a = a \<and>
   addr_high a = drop_bit 8 a \<and> addr_low a = a AND 0xFF \<and>
   (\<exists>r0 r1 r2 r. trace (snd (EEPROM_readByte b a w)) =
      trace w @ [Pal_clearpad, Spi_exchange 0x03 r0, Spi_exchange (addr_high a) r1,
        Spi_exchange (addr_low a) r2, Spi_exchange 0 r, Pal_setpad])"
proof -
  have low: "(0xFF :: uint16_t) = mask 8"
    by (simp add: mask_eq_exp_minus_1)
  have "push_bit 8 (addr_high a) OR addr_low a = a"
    unfolding addr_high_def addr_low_def low
    by (rule bit_word_eqI) (auto simp add: bit_simps)
  moreover have "addr_high a = drop_bit 8 a" "addr_low a = a AND 0xFF"
    by (simp_all add: addr_high_def addr_low_def)
  ultimately show ?thesis
    using readByte_log [of b a w] by blast
qed

text \<open>
  C3. With the first declared bit-field at the most significant bit, the status byte
  0b10000101 decodes to RDY = 1, WEN = 0, BP = 1 (the value of BlockProtection_Quarter)
  and WPEN = 1. For every status byte the fields are bit 0 (RDY), bit 1 (WEN), bits 2 and 3
  (BP) and bit 7 (WPEN), and these are the bits the four masks of the header select.
\<close>

theorem status_decoding:
  "SR_B MSB_first 0x85 =
     \<lparr>WPEN = 1, UNUSED = 0, BP = BlockProtection_value BlockProtection_Quarter, WEN = 0, RDY = 1\<rparr> \<and>
   (RDY (SR_B MSB_first r) = 1 \<longleftrightarrow> bit r 0) \<and>
   (WEN (SR_B MSB_first r) = 1 \<longleftrightarrow> bit r 1) \<and>
   (bit (BP (SR_B MSB_first r)) 0 \<longleftrightarrow> bit r 2) \<and>
   (bit (BP (SR_B MSB_first r)) 1 \<longleftrightarrow> bit r 3) \<and>
   (WPEN (SR_B MSB_first r) = 1 \<longleftrightarrow> bit r 7) \<and>
   (r AND EEPROM_STATUS_BIT_RDY \<noteq> 0 \<longleftrightarrow> bit r 0) \<and>
   (r AND EEPROM_STATUS_BIT_WEN \<noteq> 0 \<longleftrightarrow> bit r 1) \<and>
   r AND EEPROM_STATUS_BIT_BP = push_bit 2 (ucast (BP (SR_B MSB_first r))) \<and>
   (r AND EEPROM_STATUS_BIT_WPEN \<noteq> 0 \<longleftrightarrow> bit r 7)"
proof -
  have one_bit: "x = 1 \<longleftrightarrow> bit x 0" for x :: "1 word"
  proof
    assume "x = 1"
    then show "bit x 0"
      by simp
  next
    assume "bit x 0"
    then show "x = 1"
      by (intro bit_word_eqI) (simp add: bit_simps)
  qed
  have masks: "EEPROM_STATUS_BIT_RDY = 2 ^ 0" "EEPROM_STATUS_BIT_WEN = 2 ^ 1"
    "EEPROM_STATUS_BIT_WPEN = 2 ^ 7" "EEPROM_STATUS_BIT_BP = push_bit 2 (mask 2)"
    by (simp_all add: EEPROM_STATUS_BIT_RDY_def EEPROM_STATUS_BIT_WEN_def
        EEPROM_STATUS_BIT_WPEN_def EEPROM_STATUS_BIT_BP_def mask_eq_exp_minus_1)
  have up2: "Suc (Suc (n - 2)) = n" if "2 \<le> n" for n
    using that by arith
  have "SR_B MSB_first 0x85 =
     \<lparr>WPEN = 1, UNUSED = 0, BP = BlockProtection_value BlockProtection_Quarter, WEN = 0, RDY = 1\<rparr>"
    by (simp add: drop_bit_eq_div)
  moreover have "RDY (SR_B MSB_first r) = 1 \<longleftrightarrow> bit r 0"
    "WEN (SR_B MSB_first r) = 1 \<longleftrightarrow> bit r 1"
    "WPEN (SR_B MSB_first r) = 1 \<longleftrightarrow> bit r 7"
    "bit (BP (SR_B MSB_first r)) 0 \<longleftrightarrow> bit r 2" "bit (BP (SR_B MSB_first r)) 1 \<longleftrightarrow> bit r 3"
    by (simp_all add: one_bit bit_simps)
  moreover have "r AND EEPROM_STATUS_BIT_RDY \<noteq> 0 \<longleftrightarrow> bit r 0"
    "r AND EEPROM_STATUS_BIT_WEN \<noteq> 0 \<longleftrightarrow> bit r 1"
    "r AND EEPROM_STATUS_BIT_WPEN \<noteq> 0 \<longleftrightarrow> bit r 7"
    unfolding masks by (simp_all only: and_exp_eq_0_iff_not_bit simp_thms)
  moreover have "r AND EEPROM_STATUS_BIT_BP = push_bit 2 (ucast (BP (SR_B MSB_first r)))"
    unfolding masks by (rule bit_word_eqI) (auto simp add: bit_simps up2)
  ultimately show ?thesis
    by blast
qed

text \<open>
  With the first declared bit-field at the least significant bit the same byte reads
  differently: the masks of the header and the bit-fields agree on the first order only.
\<close>

lemma status_decoding_lsb_first:
  "SR_B LSB_first 0x85 = \<lparr>WPEN = 1, UNUSED = 2, BP = 0, WEN = 0, RDY = 1\<rparr>"
  by (simp add: drop_bit_eq_div)

text \<open>
  C4. If the first \<open>k\<close> status reads of the loop return a byte with bit 0 (RDY) set and
  read number \<open>k + 1\<close> returns a byte with bit 0 clear, \<open>EEPROM_wait\<close> returns, and what
  it adds to the log is exactly \<open>k + 1\<close> read-status transactions: \<open>k\<close> that found RDY
  set, each followed by one delay, then one that found RDY clear.
\<close>

theorem wait_polls:
  assumes "\<forall>i<k. bit (nth_status b w i) 0" and "\<not> bit (nth_status b w k) 0"
  shows "\<exists>w' es. EEPROM_wait b w = Some w' \<and> trace w' = trace w @ es \<and>
    poll_trace k es \<and> count_list es Pal_clearpad = Suc k"
proof -
  from assms have "EEPROM_wait b w = Some (snd (EEPROM_readStatusReg b (poll_world b w k)))"
    by (intro wait_returns) simp_all
  moreover from assms obtain es where
    "trace (snd (EEPROM_readStatusReg b (poll_world b w k))) = trace w @ es"
    "poll_trace k es" "count_list es Pal_clearpad = Suc k"
    using poll_run_log [of k b w] by auto
  ultimately show ?thesis
    by blast
qed

theorem wait_polls_witness:
  "(list_all (\<lambda>i. bit (nth_status eeprom_bus (world_init (eeprom_writing 0)) i) 0) [0..<0] \<and>
    \<not> bit (nth_status eeprom_bus (world_init (eeprom_writing 0)) 0) 0 \<and>
    (\<exists>w' es. EEPROM_wait eeprom_bus (world_init (eeprom_writing 0)) = Some w' \<and>
       trace w' = trace (world_init (eeprom_writing 0)) @ es \<and>
       poll_trace 0 es \<and> count_list es Pal_clearpad = 1)) \<and>
   (list_all (\<lambda>i. bit (nth_status eeprom_bus (world_init (eeprom_writing 3)) i) 0) [0..<3] \<and>
    \<not> bit (nth_status eeprom_bus (world_init (eeprom_writing 3)) 3) 0 \<and>
    (\<exists>w' es. EEPROM_wait eeprom_bus (world_init (eeprom_writing 3)) = Some w' \<and>
       trace w' = trace (world_init (eeprom_writing 3)) @ es \<and>
       poll_trace 3 es \<and> count_list es Pal_clearpad = 4)) \<and>
   (list_all (\<lambda>i. bit (nth_status eeprom_bus (world_init (eeprom_writing 50)) i) 0) [0..<50] \<and>
    \<not> bit (nth_status eeprom_bus (world_init (eeprom_writing 50)) 50) 0 \<and>
    (\<exists>w' es. EEPROM_wait eeprom_bus (world_init (eeprom_writing 50)) = Some w' \<and>
       trace w' = trace (world_init (eeprom_writing 50)) @ es \<and>
       poll_trace 50 es \<and> count_list es Pal_clearpad = 51))"
proof -
  have status: "bit (nth_status eeprom_bus (world_init (eeprom_writing k)) i) 0 \<longleftrightarrow> i < k"
    for k i
    by (simp add: eeprom_nth_status world_init_def eeprom_writing_def eeprom_erased_def)
  show ?thesis
    using wait_polls [of 0 eeprom_bus "world_init (eeprom_writing 0)"]
      wait_polls [of 3 eeprom_bus "world_init (eeprom_writing 3)"]
      wait_polls [of 50 eeprom_bus "world_init (eeprom_writing 50)"]
    by (simp add: status list_all_iff)
qed

text \<open>
  C5. On the device model, starting with the device deselected and not in a write cycle:
  enable-write, write-byte of \<open>v\<close> at \<open>a\<close>, waiting (which returns), then read-byte at
  \<open>a\<close> returns \<open>v\<close>, for every address \<open>a\<close> and byte \<open>v\<close>.
\<close>

theorem write_read_round_trip:
  assumes "\<not> sel (dev w)" and "busy (dev w) = 0"
  shows "\<exists>w'. EEPROM_wait eeprom_bus
            (EEPROM_writeByte eeprom_bus a v (EEPROM_enableWrite eeprom_bus w)) = Some w' \<and>
          fst (EEPROM_readByte eeprom_bus a w') = v"
proof -
  let ?w1 = "EEPROM_enableWrite eeprom_bus w"
  let ?w2 = "EEPROM_writeByte eeprom_bus a v ?w1"
  from assms have enabled: "\<not> sel (dev ?w1)" "busy (dev ?w1) = 0" "wel (dev ?w1)"
    by (simp_all add: eeprom_enableWrite)
  then have written: "\<not> sel (dev ?w2)" "mem (dev ?w2) a = v"
    by (simp_all add: eeprom_writeByte)
  from eeprom_wait [OF written(1) refl] obtain w' where fin:
    "EEPROM_wait eeprom_bus ?w2 = Some w'" "\<not> sel (dev w')" "busy (dev w') = 0"
    "mem (dev w') = mem (dev ?w2)"
    by blast
  then have "fst (EEPROM_readByte eeprom_bus a w') = v"
    using written(2) by (simp add: eeprom_readByte)
  with fin(1) show ?thesis
    by blast
qed

theorem write_read_round_trip_witness:
  "\<not> sel (dev (world_init (eeprom_erased 3))) \<and> busy (dev (world_init (eeprom_erased 3))) = 0 \<and>
   (\<exists>w'. EEPROM_wait eeprom_bus
       (EEPROM_writeByte eeprom_bus 0x0123 0x5A
         (EEPROM_enableWrite eeprom_bus (world_init (eeprom_erased 3)))) = Some w' \<and>
     fst (EEPROM_readByte eeprom_bus 0x0123 w') = 0x5A)"
  using write_read_round_trip [of "world_init (eeprom_erased 3)" "0x0123" "0x5A"]
  by (simp add: world_init_def eeprom_erased_def)

text \<open>
  C6. \<open>EEPROM_wait\<close> has no bound on its rounds. When it returns, its log is, for some
  \<open>k\<close>, \<open>k\<close> read-status transactions that found bit 0 (RDY) set, each followed by exactly
  one delay of one microsecond, and a last read-status transaction that found bit 0 clear.
  When every status read of the loop returns a byte with bit 0 set, it never returns.
\<close>

theorem wait_unbounded:
  "(EEPROM_wait b w = Some w' \<longrightarrow>
      (\<exists>k es. trace w' = trace w @ es \<and> poll_trace k es \<and>
         (\<forall>i<k. bit (nth_status b w i) 0) \<and> \<not> bit (nth_status b w k) 0)) \<and>
   ((\<forall>i. bit (nth_status b w i) 0) \<longrightarrow> EEPROM_wait b w = None)"
proof (intro conjI impI)
  assume "EEPROM_wait b w = Some w'"
  from wait_run [OF this] obtain k where run:
    "\<forall>i<k. bit (nth_status b w i) 0" "\<not> bit (nth_status b w k) 0"
    "w' = snd (EEPROM_readStatusReg b (poll_world b w k))"
    by blast
  then obtain es where "trace w' = trace w @ es" "poll_trace k es"
    using poll_run_log [of k b w] by auto
  with run(1,2) show "\<exists>k es. trace w' = trace w @ es \<and> poll_trace k es \<and>
      (\<forall>i<k. bit (nth_status b w i) 0) \<and> \<not> bit (nth_status b w k) 0"
    by blast
next
  assume "\<forall>i. bit (nth_status b w i) 0"
  then show "EEPROM_wait b w = None"
    by (rule wait_never)
qed

theorem wait_unbounded_witness:
  "(\<forall>i. bit (nth_status no_device (world_init ()) i) 0) \<and>
   EEPROM_wait no_device (world_init ()) = None \<and>
   (\<exists>w'. EEPROM_wait eeprom_bus (world_init (eeprom_writing 3)) = Some w' \<and>
     (\<exists>k es. trace w' = trace (world_init (eeprom_writing 3)) @ es \<and> poll_trace k es \<and>
       (\<forall>i<k. bit (nth_status eeprom_bus (world_init (eeprom_writing 3)) i) 0) \<and>
       \<not> bit (nth_status eeprom_bus (world_init (eeprom_writing 3)) k) 0))"
proof -
  have stuck: "nth_status no_device w i = 0xFF" for w i
    by (simp add: nth_status_def no_device_def command_simps)
  have pulled: "\<forall>i. bit (nth_status no_device (world_init ()) i) 0"
    by (simp add: stuck)
  from eeprom_wait [of "world_init (eeprom_writing 3)" 3]
  obtain w' where returns: "EEPROM_wait eeprom_bus (world_init (eeprom_writing 3)) = Some w'"
    by (auto simp add: world_init_def eeprom_writing_def eeprom_erased_def)
  show ?thesis
    using wait_unbounded [of no_device "world_init ()"] pulled
      wait_unbounded [of eeprom_bus "world_init (eeprom_writing 3)" w'] returns
    by simp
qed

text \<open>
  C7. Called with a buffer of at least \<open>length\<close> bytes, read-range adds to the log one
  transaction: opcode 0x03, the high and the low address byte of the start address, then
  exactly \<open>length\<close> exchanges that send 0x00, whose received bytes are the first
  \<open>length\<close> bytes of the buffer afterwards. Write-range adds one transaction: opcode 0x02,
  the high and the low address byte, then the first \<open>length\<close> buffer bytes in index order.
\<close>

theorem range_frames:
  assumes "unat len \<le> length data"
  shows "(\<exists>r0 r1 r2 rs data' w'.
       EEPROM_readRange b a data len w = Some (data', w') \<and> length rs = unat len \<and>
       trace w' = trace w @
         [Pal_clearpad, Spi_exchange 0x03 r0, Spi_exchange (drop_bit 8 a) r1,
          Spi_exchange (a AND 0xFF) r2] @ map (Spi_exchange 0x00) rs @ [Pal_setpad] \<and>
       take (unat len) data' = map ucast rs) \<and>
     (\<exists>r0 r1 r2 rs data' w'.
       EEPROM_writeRange b a data len w = Some (data', w') \<and> length rs = unat len \<and>
       trace w' = trace w @
         [Pal_clearpad, Spi_exchange 0x02 r0, Spi_exchange (drop_bit 8 a) r1,
          Spi_exchange (a AND 0xFF) r2] @
         map2 Spi_exchange (map ucast (take (unat len) data)) rs @ [Pal_setpad])"
proof
  from readRange_log [OF assms, of b a w] obtain r0 r1 r2 rs w' where run:
    "EEPROM_readRange b a data len w = Some (map ucast rs @ drop (unat len) data, w')"
    "length rs = unat len"
    "trace w' = trace w @ [Pal_clearpad, Spi_exchange 0x03 r0, Spi_exchange (addr_high a) r1,
       Spi_exchange (addr_low a) r2] @ map (Spi_exchange 0) rs @ [Pal_setpad]"
    by blast
  from run(2) have "take (unat len) (map ucast rs @ drop (unat len) data) =
      (map ucast rs :: uint8_t list)"
    by simp
  with run show "\<exists>r0 r1 r2 rs data' w'.
       EEPROM_readRange b a data len w = Some (data', w') \<and> length rs = unat len \<and>
       trace w' = trace w @
         [Pal_clearpad, Spi_exchange 0x03 r0, Spi_exchange (drop_bit 8 a) r1,
          Spi_exchange (a AND 0xFF) r2] @ map (Spi_exchange 0x00) rs @ [Pal_setpad] \<and>
       take (unat len) data' = map ucast rs"
    unfolding addr_high_def addr_low_def by blast
next
  from writeRange_log [OF assms, of b a w]
  show "\<exists>r0 r1 r2 rs data' w'.
       EEPROM_writeRange b a data len w = Some (data', w') \<and> length rs = unat len \<and>
       trace w' = trace w @
         [Pal_clearpad, Spi_exchange 0x02 r0, Spi_exchange (drop_bit 8 a) r1,
          Spi_exchange (a AND 0xFF) r2] @
         map2 Spi_exchange (map ucast (take (unat len) data)) rs @ [Pal_setpad]"
    unfolding addr_high_def addr_low_def by blast
qed

theorem range_frames_witness:
  "unat (2 :: uint32_t) \<le> length [0x11, 0x22, 0x33 :: uint8_t] \<and>
   (\<exists>r0 r1 r2 rs data' w'.
      EEPROM_readRange eeprom_bus 0x0123 [0x11, 0x22, 0x33] 2 (world_init (eeprom_erased 3)) =
        Some (data', w') \<and> length rs = 2 \<and>
      trace w' =
        [Pal_clearpad, Spi_exchange 0x03 r0, Spi_exchange 0x01 r1, Spi_exchange 0x23 r2] @
        map (Spi_exchange 0x00) rs @ [Pal_setpad] \<and>
      take 2 data' = map ucast rs) \<and>
   (\<exists>r0 r1 r2 rs data' w'.
      EEPROM_writeRange eeprom_bus 0x0123 [0x11, 0x22, 0x33] 2 (world_init (eeprom_erased 3)) =
        Some (data', w') \<and> length rs = 2 \<and>
      trace w' =
        [Pal_clearpad, Spi_exchange 0x02 r0, Spi_exchange 0x01 r1, Spi_exchange 0x23 r2] @
        map2 Spi_exchange [0x11, 0x22] rs @ [Pal_setpad])"
proof -
  have "drop_bit 8 (0x0123 :: uint16_t) = 0x01" "(0x0123 :: uint16_t) AND 0xFF = 0x23"
    by (simp_all add: drop_bit_eq_div and_numerals flip: mask_eq_exp_minus_1)
  then show ?thesis
    using range_frames [of 2 "[0x11, 0x22, 0x33]" eeprom_bus "0x0123" "world_init (eeprom_erased 3)"]
    by (simp add: world_init_def)
qed

text \<open>
  C8. With length 0 both range commands return, whatever the buffer. What they add to the
  log is one transaction of exactly three exchanges, the opcode and the two address bytes,
  between one pad-low and one pad-high. The buffer comes back as it was.
\<close>

theorem range_length_zero:
  "(\<exists>r0 r1 r2 w'. EEPROM_readRange b a data 0 w = Some (data, w') \<and>
      trace w' = trace w @
        [Pal_clearpad, Spi_exchange 0x03 r0, Spi_exchange (addr_high a) r1,
         Spi_exchange (addr_low a) r2, Pal_setpad]) \<and>
   (\<exists>r0 r1 r2 w'. EEPROM_writeRange b a data 0 w = Some (data, w') \<and>
      trace w' = trace w @
        [Pal_clearpad, Spi_exchange 0x02 r0, Spi_exchange (addr_high a) r1,
         Spi_exchange (addr_low a) r2, Pal_setpad])"
proof
  have "unat (0 :: uint32_t) \<le> length data"
    by simp
  from readRange_log [OF this, of b a w]
  show "\<exists>r0 r1 r2 w'. EEPROM_readRange b a data 0 w = Some (data, w') \<and>
      trace w' = trace w @
        [Pal_clearpad, Spi_exchange 0x03 r0, Spi_exchange (addr_high a) r1,
         Spi_exchange (addr_low a) r2, Pal_setpad]"
    by auto
next
  have "unat (0 :: uint32_t) \<le> length data"
    by simp
  from writeRange_log [OF this, of b a w]
  show "\<exists>r0 r1 r2 w'. EEPROM_writeRange b a data 0 w = Some (data, w') \<and>
      trace w' = trace w @
        [Pal_clearpad, Spi_exchange 0x02 r0, Spi_exchange (addr_high a) r1,
         Spi_exchange (addr_low a) r2, Pal_setpad]"
    by auto
qed

text \<open>
  C9. Chip-select is released by \<open>pal_lld_setpad\<close>, which drives the pad high, and asserted
  by \<open>pal_lld_clearpad\<close>, which drives it low. Every command, and \<open>EEPROM_wait\<close> when it
  returns, leaves the pad high: the first thing it adds to the log is the pad driven low
  and the last thing is the pad driven high. The range commands are called with a buffer
  of at least \<open>length\<close> bytes.
\<close>

theorem chip_select_released:
  "(pad (EEPROM_setChipSelect b w) \<and> trace (EEPROM_setChipSelect b w) = trace w @ [Pal_setpad]) \<and>
   (\<not> pad (EEPROM_clearChipSelect b w) \<and>
      trace (EEPROM_clearChipSelect b w) = trace w @ [Pal_clearpad]) \<and>
   (pad (EEPROM_enableWrite b w) \<and>
      (\<exists>es. trace (EEPROM_enableWrite b w) = trace w @ Pal_clearpad # es @ [Pal_setpad])) \<and>
   (pad (EEPROM_disableWrite b w) \<and>
      (\<exists>es. trace (EEPROM_disableWrite b w) = trace w @ Pal_clearpad # es @ [Pal_setpad])) \<and>
   (pad (snd (EEPROM_readStatusReg b w)) \<and>
      (\<exists>es. trace (snd (EEPROM_readStatusReg b w)) = trace w @ Pal_clearpad # es @ [Pal_setpad])) \<and>
   (pad (EEPROM_writeStatusReg b cmd w) \<and>
      (\<exists>es. trace (EEPROM_writeStatusReg b cmd w) = trace w @ Pal_clearpad # es @ [Pal_setpad])) \<and>
   (pad (snd (EEPROM_readByte b a w)) \<and>
      (\<exists>es. trace (snd (EEPROM_readByte b a w)) = trace w @ Pal_clearpad # es @ [Pal_setpad])) \<and>
   (pad (EEPROM_writeByte b a v w) \<and>
      (\<exists>es. trace (EEPROM_writeByte b a v w) = trace w @ Pal_clearpad # es @ [Pal_setpad])) \<and>
   (unat len \<le> length data \<longrightarrow>
      (\<exists>data' w' es. EEPROM_readRange b a data len w = Some (data', w') \<and> pad w' \<and>
         trace w' = trace w @ Pal_clearpad # es @ [Pal_setpad])) \<and>
   (unat len \<le> length data \<longrightarrow>
      (\<exists>data' w' es. EEPROM_writeRange b a data len w = Some (data', w') \<and> pad w' \<and>
         trace w' = trace w @ Pal_clearpad # es @ [Pal_setpad])) \<and>
   (\<forall>w'. EEPROM_wait b w = Some w' \<longrightarrow>
      pad w' \<and> (\<exists>es. trace w' = trace w @ Pal_clearpad # es @ [Pal_setpad]))"
proof (intro conjI impI allI)
  show "pad (EEPROM_setChipSelect b w)" "\<not> pad (EEPROM_clearChipSelect b w)"
    "trace (EEPROM_setChipSelect b w) = trace w @ [Pal_setpad]"
    "trace (EEPROM_clearChipSelect b w) = trace w @ [Pal_clearpad]"
    by (simp_all add: chip_select_defs)
  show "pad (EEPROM_enableWrite b w)"
    "\<exists>es. trace (EEPROM_enableWrite b w) = trace w @ Pal_clearpad # es @ [Pal_setpad]"
    using enableWrite_log [of b w] by auto
  show "pad (EEPROM_disableWrite b w)"
    "\<exists>es. trace (EEPROM_disableWrite b w) = trace w @ Pal_clearpad # es @ [Pal_setpad]"
    using disableWrite_log [of b w] by auto
  show "pad (snd (EEPROM_readStatusReg b w))"
    "\<exists>es. trace (snd (EEPROM_readStatusReg b w)) = trace w @ Pal_clearpad # es @ [Pal_setpad]"
    using readStatusReg_log [of b w] by auto
  show "pad (EEPROM_writeStatusReg b cmd w)"
    "\<exists>es. trace (EEPROM_writeStatusReg b cmd w) = trace w @ Pal_clearpad # es @ [Pal_setpad]"
    using writeStatusReg_log [of b cmd w] by auto
  show "pad (snd (EEPROM_readByte b a w))"
    "\<exists>es. trace (snd (EEPROM_readByte b a w)) = trace w @ Pal_clearpad # es @ [Pal_setpad]"
    using readByte_log [of b a w] by auto
  show "pad (EEPROM_writeByte b a v w)"
    "\<exists>es. trace (EEPROM_writeByte b a v w) = trace w @ Pal_clearpad # es @ [Pal_setpad]"
    using writeByte_log [of b a v w] by auto
next
  assume "unat len \<le> length data"
  from readRange_log [OF this, of b a w] obtain r0 r1 r2 rs w' where run:
    "EEPROM_readRange b a data len w = Some (map ucast rs @ drop (unat len) data, w')" "pad w'"
    "trace w' = trace w @ [Pal_clearpad, Spi_exchange 0x03 r0, Spi_exchange (addr_high a) r1,
       Spi_exchange (addr_low a) r2] @ map (Spi_exchange 0) rs @ [Pal_setpad]"
    by blast
  from run(3) have "trace w' = trace w @ Pal_clearpad #
      ([Spi_exchange 0x03 r0, Spi_exchange (addr_high a) r1, Spi_exchange (addr_low a) r2] @
        map (Spi_exchange 0) rs) @ [Pal_setpad]"
    by simp
  with run(1,2) show "\<exists>data' w' es. EEPROM_readRange b a data len w = Some (data', w') \<and>
      pad w' \<and> trace w' = trace w @ Pal_clearpad # es @ [Pal_setpad]"
    by blast
next
  assume "unat len \<le> length data"
  from writeRange_log [OF this, of b a w] obtain r0 r1 r2 rs w' where run:
    "EEPROM_writeRange b a data len w = Some (data, w')" "pad w'"
    "trace w' = trace w @ [Pal_clearpad, Spi_exchange 0x02 r0, Spi_exchange (addr_high a) r1,
       Spi_exchange (addr_low a) r2] @
       map2 Spi_exchange (map ucast (take (unat len) data)) rs @ [Pal_setpad]"
    by blast
  from run(3) have "trace w' = trace w @ Pal_clearpad #
      ([Spi_exchange 0x02 r0, Spi_exchange (addr_high a) r1, Spi_exchange (addr_low a) r2] @
        map2 Spi_exchange (map ucast (take (unat len) data)) rs) @ [Pal_setpad]"
    by simp
  with run(1,2) show "\<exists>data' w' es. EEPROM_writeRange b a data len w = Some (data', w') \<and>
      pad w' \<and> trace w' = trace w @ Pal_clearpad # es @ [Pal_setpad]"
    by blast
next
  fix w'
  assume "EEPROM_wait b w = Some w'"
  from wait_run [OF this] obtain k where run:
    "\<forall>i<k. bit (nth_status b w i) 0" "\<not> bit (nth_status b w k) 0"
    "w' = snd (EEPROM_readStatusReg b (poll_world b w k))"
    by blast
  from run(3) show "pad w'"
    by (simp add: poll_run_pad)
  from run obtain es where "trace w' = trace w @ es"
    "es \<noteq> []" "hd es = Pal_clearpad" "last es = Pal_setpad"
    using poll_run_log [of k b w] by auto
  with bracketed [of es]
  show "\<exists>es. trace w' = trace w @ Pal_clearpad # es @ [Pal_setpad]"
    by auto
qed

theorem chip_select_released_witness:
  "unat (2 :: uint32_t) \<le> length [0x11, 0x22, 0x33 :: uint8_t] \<and>
   (\<exists>data' w' es.
      EEPROM_readRange eeprom_bus 0x0123 [0x11, 0x22, 0x33] 2 (world_init (eeprom_erased 3)) =
        Some (data', w') \<and> pad w' \<and>
      trace w' = trace (world_init (eeprom_erased 3)) @ Pal_clearpad # es @ [Pal_setpad]) \<and>
   (\<exists>data' w' es.
      EEPROM_writeRange eeprom_bus 0x0123 [0x11, 0x22, 0x33] 2 (world_init (eeprom_erased 3)) =
        Some (data', w') \<and> pad w' \<and>
      trace w' = trace (world_init (eeprom_erased 3)) @ Pal_clearpad # es @ [Pal_setpad]) \<and>
   (\<exists>w'. EEPROM_wait eeprom_bus (world_init (eeprom_writing 3)) = Some w' \<and> pad w' \<and>
      (\<exists>es. trace w' = trace (world_init (eeprom_writing 3)) @ Pal_clearpad # es @ [Pal_setpad]))"
proof -
  from eeprom_wait [of "world_init (eeprom_writing 3)" 3]
  obtain w' where returns: "EEPROM_wait eeprom_bus (world_init (eeprom_writing 3)) = Some w'"
    by (auto simp add: world_init_def eeprom_writing_def eeprom_erased_def)
  show ?thesis
    using chip_select_released
        [of eeprom_bus "world_init (eeprom_erased 3)" _ "0x0123" _ 2 "[0x11, 0x22, 0x33]"]
      chip_select_released [of eeprom_bus "world_init (eeprom_writing 3)"] returns
    by simp
qed

text \<open>
  C10. Called with a buffer of at least \<open>length\<close> bytes, read-range returns the buffer
  with entry \<open>i\<close>, for every \<open>i\<close> below \<open>length\<close>, holding the byte received by the
  exchange number \<open>i + 1\<close> after the address bytes, and with every entry from index
  \<open>length\<close> on as it was; the buffer keeps its size. Write-range returns the buffer
  unchanged.
\<close>

theorem range_buffer_effect:
  assumes "unat len \<le> length data"
  shows "(\<exists>r0 r1 r2 rs data' w'.
       EEPROM_readRange b a data len w = Some (data', w') \<and> length rs = unat len \<and>
       trace w' = trace w @
         [Pal_clearpad, Spi_exchange 0x03 r0, Spi_exchange (addr_high a) r1,
          Spi_exchange (addr_low a) r2] @ map (Spi_exchange 0x00) rs @ [Pal_setpad] \<and>
       length data' = length data \<and>
       (\<forall>i<unat len. data' ! i = ucast (rs ! i)) \<and>
       (\<forall>i. unat len \<le> i \<and> i < length data \<longrightarrow> data' ! i = data ! i)) \<and>
     (\<exists>w'. EEPROM_writeRange b a data len w = Some (data, w'))"
proof
  from readRange_log [OF assms, of b a w] obtain r0 r1 r2 rs w' where run:
    "EEPROM_readRange b a data len w = Some (map ucast rs @ drop (unat len) data, w')"
    "length rs = unat len"
    "trace w' = trace w @ [Pal_clearpad, Spi_exchange 0x03 r0, Spi_exchange (addr_high a) r1,
       Spi_exchange (addr_low a) r2] @ map (Spi_exchange 0) rs @ [Pal_setpad]"
    by blast
  let ?data' = "map ucast rs @ drop (unat len) data :: uint8_t list"
  from run(2) assms have "length ?data' = length data"
    by simp
  moreover from run(2) have "\<forall>i<unat len. ?data' ! i = ucast (rs ! i)"
    by (simp add: nth_append)
  moreover from run(2) assms
  have "\<forall>i. unat len \<le> i \<and> i < length data \<longrightarrow> ?data' ! i = data ! i"
    by (simp add: nth_append)
  ultimately show "\<exists>r0 r1 r2 rs data' w'.
       EEPROM_readRange b a data len w = Some (data', w') \<and> length rs = unat len \<and>
       trace w' = trace w @
         [Pal_clearpad, Spi_exchange 0x03 r0, Spi_exchange (addr_high a) r1,
          Spi_exchange (addr_low a) r2] @ map (Spi_exchange 0x00) rs @ [Pal_setpad] \<and>
       length data' = length data \<and>
       (\<forall>i<unat len. data' ! i = ucast (rs ! i)) \<and>
       (\<forall>i. unat len \<le> i \<and> i < length data \<longrightarrow> data' ! i = data ! i)"
    using run by blast
next
  from writeRange_log [OF assms, of b a w]
  show "\<exists>w'. EEPROM_writeRange b a data len w = Some (data, w')"
    by blast
qed

theorem range_buffer_effect_witness:
  "unat (2 :: uint32_t) \<le> length [0x11, 0x22, 0x33 :: uint8_t] \<and>
   ((\<exists>r0 r1 r2 rs data' w'.
      EEPROM_readRange eeprom_bus 0x0123 [0x11, 0x22, 0x33] 2 (world_init (eeprom_erased 3)) =
        Some (data', w') \<and> length rs = unat (2 :: uint32_t) \<and>
      trace w' = trace (world_init (eeprom_erased 3)) @
        [Pal_clearpad, Spi_exchange 0x03 r0, Spi_exchange (addr_high 0x0123) r1,
         Spi_exchange (addr_low 0x0123) r2] @ map (Spi_exchange 0x00) rs @ [Pal_setpad] \<and>
      length data' = length [0x11, 0x22, 0x33 :: uint8_t] \<and>
      (\<forall>i<unat (2 :: uint32_t). data' ! i = ucast (rs ! i)) \<and>
      (\<forall>i. unat (2 :: uint32_t) \<le> i \<and> i < length [0x11, 0x22, 0x33 :: uint8_t] \<longrightarrow>
         data' ! i = [0x11, 0x22, 0x33] ! i)) \<and>
    (\<exists>w'. EEPROM_writeRange eeprom_bus 0x0123 [0x11, 0x22, 0x33] 2 (world_init (eeprom_erased 3)) =
      Some ([0x11, 0x22, 0x33], w')))"
proof -
  have fits: "unat (2 :: uint32_t) \<le> length [0x11, 0x22, 0x33 :: uint8_t]"
    by simp
  from fits range_buffer_effect [OF fits] show ?thesis
    by (rule conjI)
qed

end
